theory Spec2Isabelle
  imports Main "HOL-Library.Word"
begin

section \<open>The native interface as seen by \<open>Tethering/jni/onload.cpp\<close>\<close>

text \<open>
  \<open>jint\<close> is a signed 32-bit integer, and so is the C \<open>int\<close> returned by the registration
  routines on every Android ABI. Both are 32-bit words, read as two's complement by
  \<open>sint\<close>; the source's test \<open>r < 0\<close> is \<open>sint r < 0\<close>.
\<close>

type_synonym jint = "32 word"
type_synonym c_int = "32 word"

text \<open>
  Modelled from the spec: the header \<open>jni.h\<close> is not part of the sources; the spec only calls
  these three "the success ABI-version token", "the generic error token" and the status of a
  successful environment request. The values are the ones the standard JNI header gives
  them. The statements below use the values only to tell the two returned tokens apart and
  to evaluate concrete runs.
\<close>

definition JNI_OK :: jint where
  "JNI_OK = 0"

definition JNI_ERR :: jint where
  "JNI_ERR = - 1"

definition JNI_VERSION_1_6 :: jint where
  "JNI_VERSION_1_6 = 0x00010006"

text \<open>
  Modelled from the spec: the header \<open>android/log.h\<close> is not part of the sources; the spec
  speaks of a "fatal-severity" line. The severities are the header's enumeration.
\<close>

datatype android_LogPriority =
    ANDROID_LOG_UNKNOWN
  | ANDROID_LOG_DEFAULT
  | ANDROID_LOG_VERBOSE
  | ANDROID_LOG_DEBUG
  | ANDROID_LOG_INFO
  | ANDROID_LOG_WARN
  | ANDROID_LOG_ERROR
  | ANDROID_LOG_FATAL
  | ANDROID_LOG_SILENT

definition LOG_TAG :: string where
  "LOG_TAG = ''TetheringJni''"

subsection \<open>The collaborators\<close>

text \<open>
  Everything \<open>JNI_OnLoad\<close> calls is defined elsewhere: the virtual machine's \<open>GetEnv\<close>, the
  logger and the five declared registration routines. They are parameters of the model.
  Each one may read and change the state of the world outside this file (type \<open>'w\<close>), so
  each takes that state and returns the new one beside its result. \<open>'e\<close> is the type of the
  environment handle (\<open>JNIEnv*\<close>). \<open>GetEnv\<close> returns its status together with the handle it
  stored through its out-parameter.
\<close>

record ('w, 'e) host =
  GetEnv :: "'w \<Rightarrow> jint \<Rightarrow> (jint \<times> 'e) \<times> 'w"
  android_log_print :: "'w \<Rightarrow> android_LogPriority \<Rightarrow> string \<Rightarrow> string \<Rightarrow> c_int \<times> 'w"
  register_com_android_net_module_util_BpfMap :: "'w \<Rightarrow> 'e \<Rightarrow> string \<Rightarrow> c_int \<times> 'w"
  register_com_android_net_module_util_TcUtils :: "'w \<Rightarrow> 'e \<Rightarrow> string \<Rightarrow> c_int \<times> 'w"
  register_com_android_networkstack_tethering_BpfCoordinator :: "'w \<Rightarrow> 'e \<Rightarrow> c_int \<times> 'w"
  register_com_android_networkstack_tethering_BpfUtils :: "'w \<Rightarrow> 'e \<Rightarrow> c_int \<times> 'w"
  register_com_android_networkstack_tethering_util_TetheringUtils :: "'w \<Rightarrow> 'e \<Rightarrow> c_int \<times> 'w"

text \<open>
  What an observer of the load sees: the calls that leave this file, with their arguments,
  oldest first.
\<close>

datatype 'e call =
    GetEnv_call jint
  | Log_call android_LogPriority string string
  | TetheringUtils_call 'e
  | BpfMap_call 'e string
  | TcUtils_call 'e string
  | BpfCoordinator_call 'e
  | BpfUtils_call 'e

text \<open>An execution in progress: the calls made so far and the current outside state.\<close>

type_synonym ('w, 'e) exec = "'e call list \<times> 'w"

definition call_GetEnv ::
  "('w, 'e) host \<Rightarrow> jint \<Rightarrow> ('w, 'e) exec \<Rightarrow> (jint \<times> 'e) \<times> ('w, 'e) exec" where
  "call_GetEnv vm version x =
     (case GetEnv vm (snd x) version of
        (res, w') \<Rightarrow> (res, (fst x @ [GetEnv_call version], w')))"

definition call_android_log_print ::
  "('w, 'e) host \<Rightarrow> android_LogPriority \<Rightarrow> string \<Rightarrow> string \<Rightarrow> ('w, 'e) exec
     \<Rightarrow> c_int \<times> ('w, 'e) exec" where
  "call_android_log_print vm prio tag msg x =
     (case android_log_print vm (snd x) prio tag msg of
        (r, w') \<Rightarrow> (r, (fst x @ [Log_call prio tag msg], w')))"

definition call_register_TetheringUtils ::
  "('w, 'e) host \<Rightarrow> 'e \<Rightarrow> ('w, 'e) exec \<Rightarrow> c_int \<times> ('w, 'e) exec" where
  "call_register_TetheringUtils vm env x =
     (case register_com_android_networkstack_tethering_util_TetheringUtils vm (snd x) env of
        (r, w') \<Rightarrow> (r, (fst x @ [TetheringUtils_call env], w')))"

definition call_register_BpfMap ::
  "('w, 'e) host \<Rightarrow> 'e \<Rightarrow> string \<Rightarrow> ('w, 'e) exec \<Rightarrow> c_int \<times> ('w, 'e) exec" where
  "call_register_BpfMap vm env class_name x =
     (case register_com_android_net_module_util_BpfMap vm (snd x) env class_name of
        (r, w') \<Rightarrow> (r, (fst x @ [BpfMap_call env class_name], w')))"

definition call_register_TcUtils ::
  "('w, 'e) host \<Rightarrow> 'e \<Rightarrow> string \<Rightarrow> ('w, 'e) exec \<Rightarrow> c_int \<times> ('w, 'e) exec" where
  "call_register_TcUtils vm env class_name x =
     (case register_com_android_net_module_util_TcUtils vm (snd x) env class_name of
        (r, w') \<Rightarrow> (r, (fst x @ [TcUtils_call env class_name], w')))"

definition call_register_BpfCoordinator ::
  "('w, 'e) host \<Rightarrow> 'e \<Rightarrow> ('w, 'e) exec \<Rightarrow> c_int \<times> ('w, 'e) exec" where
  "call_register_BpfCoordinator vm env x =
     (case register_com_android_networkstack_tethering_BpfCoordinator vm (snd x) env of
        (r, w') \<Rightarrow> (r, (fst x @ [BpfCoordinator_call env], w')))"

section \<open>The load entry point\<close>

text \<open>
  \<open>JNI_OnLoad vm w\<close> is the source's \<open>JNI_OnLoad(vm, reserved)\<close> started in the outside state
  \<open>w\<close>; the second argument of the source is unnamed and unused. The result is the returned
  \<open>jint\<close>, the calls made and the outside state left behind. Every \<open>return\<close> of the source is
  one branch.
\<close>

definition JNI_OnLoad :: "('w, 'e) host \<Rightarrow> 'w \<Rightarrow> jint \<times> ('w, 'e) exec" where
  "JNI_OnLoad vm w =
     (case call_GetEnv vm JNI_VERSION_1_6 ([], w) of
        ((status, env), x1) \<Rightarrow>
          if status \<noteq> JNI_OK then
            (case call_android_log_print vm ANDROID_LOG_FATAL LOG_TAG
                    ''ERROR: GetEnv failed'' x1 of
               (_, x2) \<Rightarrow> (JNI_ERR, x2))
          else
            (case call_register_TetheringUtils vm env x1 of
               (r1, x2) \<Rightarrow>
                 if sint r1 < 0 then (JNI_ERR, x2)
                 else
                   (case call_register_BpfMap vm env
                           ''com/android/networkstack/tethering/util/BpfMap'' x2 of
                      (r2, x3) \<Rightarrow>
                        if sint r2 < 0 then (JNI_ERR, x3)
                        else
                          (case call_register_TcUtils vm env
                                  ''com/android/networkstack/tethering/util/TcUtils'' x3 of
                             (r3, x4) \<Rightarrow>
                               if sint r3 < 0 then (JNI_ERR, x4)
                               else
                                 (case call_register_BpfCoordinator vm env x4 of
                                    (r4, x5) \<Rightarrow>
                                      if sint r4 < 0 then (JNI_ERR, x5)
                                      else (JNI_VERSION_1_6, x5))))))"

text \<open>The value returned to the host, and the calls made.\<close>

definition returned :: "jint \<times> ('w, 'e) exec \<Rightarrow> jint" where
  "returned out = fst out"

definition calls_made :: "jint \<times> ('w, 'e) exec \<Rightarrow> 'e call list" where
  "calls_made out = fst (snd out)"

section \<open>Vocabulary for stating the properties\<close>

text \<open>
  The two class names passed by \<open>JNI_OnLoad\<close>, and the four registration calls of a load in
  which nothing fails, in the order of the source text.
\<close>

definition BpfMap_class :: string where
  "BpfMap_class = ''com/android/networkstack/tethering/util/BpfMap''"

definition TcUtils_class :: string where
  "TcUtils_class = ''com/android/networkstack/tethering/util/TcUtils''"

definition registration_sequence :: "'e \<Rightarrow> 'e call list" where
  "registration_sequence env =
     [TetheringUtils_call env, BpfMap_call env BpfMap_class,
      TcUtils_call env TcUtils_class, BpfCoordinator_call env]"

definition fatal_line :: "'e call" where
  "fatal_line = Log_call ANDROID_LOG_FATAL LOG_TAG ''ERROR: GetEnv failed''"

text \<open>Which routine a call went to, and which environment handle it was given.\<close>

datatype routine =
    Fn_GetEnv
  | Fn_android_log_print
  | Fn_TetheringUtils
  | Fn_BpfMap
  | Fn_TcUtils
  | Fn_BpfCoordinator
  | Fn_BpfUtils

fun routine_of :: "'e call \<Rightarrow> routine" where
  "routine_of (GetEnv_call version) = Fn_GetEnv"
| "routine_of (Log_call prio tag msg) = Fn_android_log_print"
| "routine_of (TetheringUtils_call env) = Fn_TetheringUtils"
| "routine_of (BpfMap_call env class_name) = Fn_BpfMap"
| "routine_of (TcUtils_call env class_name) = Fn_TcUtils"
| "routine_of (BpfCoordinator_call env) = Fn_BpfCoordinator"
| "routine_of (BpfUtils_call env) = Fn_BpfUtils"

fun handle_of :: "'e call \<Rightarrow> 'e option" where
  "handle_of (GetEnv_call version) = None"
| "handle_of (Log_call prio tag msg) = None"
| "handle_of (TetheringUtils_call env) = Some env"
| "handle_of (BpfMap_call env class_name) = Some env"
| "handle_of (TcUtils_call env class_name) = Some env"
| "handle_of (BpfCoordinator_call env) = Some env"
| "handle_of (BpfUtils_call env) = Some env"

definition is_registration :: "'e call \<Rightarrow> bool" where
  "is_registration c = (handle_of c \<noteq> None)"

definition is_log :: "'e call \<Rightarrow> bool" where
  "is_log c = (routine_of c = Fn_android_log_print)"

definition invoked :: "jint \<times> ('w, 'e) exec \<Rightarrow> routine list" where
  "invoked out = map routine_of (calls_made out)"

definition registrations :: "jint \<times> ('w, 'e) exec \<Rightarrow> 'e call list" where
  "registrations out = filter is_registration (calls_made out)"

text \<open>
  Of the results the four registration routines would give, the ones a load gets to see: those
  up to and including the first negative one.
\<close>

definition results_seen :: "c_int list \<Rightarrow> c_int list" where
  "results_seen rs = take (Suc (length (takeWhile (\<lambda>r. 0 \<le> sint r) rs))) rs"

subsection \<open>A scripted host\<close>

text \<open>
  The spec's scenarios speak of mocked registration routines returning a given sequence of
  results "in order". \<open>mock_host status env\<close> is that test double: the outside state is the
  list of results still to be handed out, every registration routine takes the next one
  (and 0 once the list is used up), \<open>GetEnv\<close> answers \<open>status\<close> and stores \<open>env\<close>, and the
  logger does nothing.
\<close>

definition next_result :: "c_int list \<Rightarrow> c_int \<times> c_int list" where
  "next_result script = (case script of [] \<Rightarrow> (0, []) | r # rest \<Rightarrow> (r, rest))"

definition mock_host :: "jint \<Rightarrow> 'e \<Rightarrow> (c_int list, 'e) host" where
  "mock_host status env =
     \<lparr> GetEnv = (\<lambda>script version. ((status, env), script)),
       android_log_print = (\<lambda>script prio tag msg. (0, script)),
       register_com_android_net_module_util_BpfMap =
         (\<lambda>script e class_name. next_result script),
       register_com_android_net_module_util_TcUtils =
         (\<lambda>script e class_name. next_result script),
       register_com_android_networkstack_tethering_BpfCoordinator =
         (\<lambda>script e. next_result script),
       register_com_android_networkstack_tethering_BpfUtils =
         (\<lambda>script e. next_result script),
       register_com_android_networkstack_tethering_util_TetheringUtils =
         (\<lambda>script e. next_result script) \<rparr>"

subsection \<open>Changing what the registration routines answer\<close>

text \<open>
  \<open>map_results f vm\<close> is the host \<open>vm\<close> with every registration routine's integer result
  passed through \<open>f\<close>; what the routines do to the outside state is unchanged.
\<close>

definition map_results :: "(c_int \<Rightarrow> c_int) \<Rightarrow> ('w, 'e) host \<Rightarrow> ('w, 'e) host" where
  "map_results f vm =
     vm \<lparr> register_com_android_net_module_util_BpfMap :=
            (\<lambda>w e class_name.
               case register_com_android_net_module_util_BpfMap vm w e class_name of
                 (r, w') \<Rightarrow> (f r, w')),
          register_com_android_net_module_util_TcUtils :=
            (\<lambda>w e class_name.
               case register_com_android_net_module_util_TcUtils vm w e class_name of
                 (r, w') \<Rightarrow> (f r, w')),
          register_com_android_networkstack_tethering_BpfCoordinator :=
            (\<lambda>w e.
               case register_com_android_networkstack_tethering_BpfCoordinator vm w e of
                 (r, w') \<Rightarrow> (f r, w')),
          register_com_android_networkstack_tethering_BpfUtils :=
            (\<lambda>w e.
               case register_com_android_networkstack_tethering_BpfUtils vm w e of
                 (r, w') \<Rightarrow> (f r, w')),
          register_com_android_networkstack_tethering_util_TetheringUtils :=
            (\<lambda>w e.
               case register_com_android_networkstack_tethering_util_TetheringUtils vm w e of
                 (r, w') \<Rightarrow> (f r, w')) \<rparr>"

section \<open>The two ways a load can go\<close>

lemma JNI_OnLoad_GetEnv_failed:
  assumes "GetEnv vm w JNI_VERSION_1_6 = ((status, env), w1)"
    and "status \<noteq> JNI_OK"
  shows "JNI_OnLoad vm w =
     (JNI_ERR, [GetEnv_call JNI_VERSION_1_6, fatal_line],
      snd (android_log_print vm w1 ANDROID_LOG_FATAL LOG_TAG ''ERROR: GetEnv failed''))"
  using assms
  unfolding JNI_OnLoad_def call_GetEnv_def call_android_log_print_def fatal_line_def
  by (simp add: case_prod_beta)

lemma JNI_OnLoad_GetEnv_ok:
  assumes "GetEnv vm w JNI_VERSION_1_6 = ((JNI_OK, env), w1)"
    and "register_com_android_networkstack_tethering_util_TetheringUtils vm w1 env = (r1, w2)"
    and "register_com_android_net_module_util_BpfMap vm w2 env BpfMap_class = (r2, w3)"
    and "register_com_android_net_module_util_TcUtils vm w3 env TcUtils_class = (r3, w4)"
    and "register_com_android_networkstack_tethering_BpfCoordinator vm w4 env = (r4, w5)"
  shows "JNI_OnLoad vm w =
     (if sint r1 < 0 then
        (JNI_ERR, GetEnv_call JNI_VERSION_1_6 # take 1 (registration_sequence env), w2)
      else if sint r2 < 0 then
        (JNI_ERR, GetEnv_call JNI_VERSION_1_6 # take 2 (registration_sequence env), w3)
      else if sint r3 < 0 then
        (JNI_ERR, GetEnv_call JNI_VERSION_1_6 # take 3 (registration_sequence env), w4)
      else if sint r4 < 0 then
        (JNI_ERR, GetEnv_call JNI_VERSION_1_6 # take 4 (registration_sequence env), w5)
      else (JNI_VERSION_1_6, GetEnv_call JNI_VERSION_1_6 # registration_sequence env, w5))"
  using assms
  unfolding JNI_OnLoad_def call_GetEnv_def
    call_register_TetheringUtils_def call_register_BpfMap_def call_register_TcUtils_def
    call_register_BpfCoordinator_def registration_sequence_def BpfMap_class_def TcUtils_class_def
  by simp

lemma tokens_differ: "JNI_ERR \<noteq> JNI_VERSION_1_6"
  by (simp add: JNI_ERR_def JNI_VERSION_1_6_def)

lemma mock_host_simps:
  "GetEnv (mock_host status env) script version = ((status, env), script)"
  "android_log_print (mock_host status env) script prio tag msg = (0, script)"
  "register_com_android_net_module_util_BpfMap (mock_host status env) script e n
     = next_result script"
  "register_com_android_net_module_util_TcUtils (mock_host status env) script e n
     = next_result script"
  "register_com_android_networkstack_tethering_BpfCoordinator (mock_host status env) script e
     = next_result script"
  "register_com_android_networkstack_tethering_BpfUtils (mock_host status env) script e
     = next_result script"
  "register_com_android_networkstack_tethering_util_TetheringUtils (mock_host status env) script e
     = next_result script"
  by (simp_all add: mock_host_def)

lemma next_result_simps:
  "next_result [] = (0, [])"
  "next_result (r # rest) = (r, rest)"
  by (simp_all add: next_result_def)

lemma mock_run_ok:
  "JNI_OnLoad (mock_host JNI_OK e) [r1, r2, r3, r4] =
     (if sint r1 < 0 then
        (JNI_ERR, GetEnv_call JNI_VERSION_1_6 # take 1 (registration_sequence e), [r2, r3, r4])
      else if sint r2 < 0 then
        (JNI_ERR, GetEnv_call JNI_VERSION_1_6 # take 2 (registration_sequence e), [r3, r4])
      else if sint r3 < 0 then
        (JNI_ERR, GetEnv_call JNI_VERSION_1_6 # take 3 (registration_sequence e), [r4])
      else if sint r4 < 0 then
        (JNI_ERR, GetEnv_call JNI_VERSION_1_6 # take 4 (registration_sequence e), [])
      else (JNI_VERSION_1_6, GetEnv_call JNI_VERSION_1_6 # registration_sequence e, []))"
proof -
  let ?vm = "mock_host JNI_OK e"
  have "GetEnv ?vm [r1, r2, r3, r4] JNI_VERSION_1_6 = ((JNI_OK, e), [r1, r2, r3, r4])"
    by (simp add: mock_host_simps)
  moreover have "register_com_android_networkstack_tethering_util_TetheringUtils ?vm
      [r1, r2, r3, r4] e = (r1, [r2, r3, r4])"
    by (simp add: mock_host_simps next_result_simps)
  moreover have "register_com_android_net_module_util_BpfMap ?vm
      [r2, r3, r4] e BpfMap_class = (r2, [r3, r4])"
    by (simp add: mock_host_simps next_result_simps)
  moreover have "register_com_android_net_module_util_TcUtils ?vm
      [r3, r4] e TcUtils_class = (r3, [r4])"
    by (simp add: mock_host_simps next_result_simps)
  moreover have "register_com_android_networkstack_tethering_BpfCoordinator ?vm
      [r4] e = (r4, [])"
    by (simp add: mock_host_simps next_result_simps)
  ultimately show ?thesis
    by (rule JNI_OnLoad_GetEnv_ok)
qed

text \<open>
  The outcome of a load in which the environment was obtained, without naming the results
  of the registration routines.
\<close>

lemma JNI_OnLoad_ok_shape:
  assumes "GetEnv vm w JNI_VERSION_1_6 = ((JNI_OK, env), w1)"
  shows "\<exists>n w'. 1 \<le> n \<and> n \<le> 4 \<and>
           (JNI_OnLoad vm w
              = (JNI_ERR, GetEnv_call JNI_VERSION_1_6 # take n (registration_sequence env), w') \<or>
            n = 4 \<and> JNI_OnLoad vm w
              = (JNI_VERSION_1_6, GetEnv_call JNI_VERSION_1_6 # take n (registration_sequence env), w'))"
proof -
  obtain r1 w2 where c1:
    "register_com_android_networkstack_tethering_util_TetheringUtils vm w1 env = (r1, w2)"
    by (rule prod.exhaust)
  obtain r2 w3 where c2:
    "register_com_android_net_module_util_BpfMap vm w2 env BpfMap_class = (r2, w3)"
    by (rule prod.exhaust)
  obtain r3 w4 where c3:
    "register_com_android_net_module_util_TcUtils vm w3 env TcUtils_class = (r3, w4)"
    by (rule prod.exhaust)
  obtain r4 w5 where c4:
    "register_com_android_networkstack_tethering_BpfCoordinator vm w4 env = (r4, w5)"
    by (rule prod.exhaust)
  note run = JNI_OnLoad_GetEnv_ok [OF assms c1 c2 c3 c4]
  consider "sint r1 < 0"
    | "0 \<le> sint r1" "sint r2 < 0"
    | "0 \<le> sint r1" "0 \<le> sint r2" "sint r3 < 0"
    | "0 \<le> sint r1" "0 \<le> sint r2" "0 \<le> sint r3" "sint r4 < 0"
    | "0 \<le> sint r1" "0 \<le> sint r2" "0 \<le> sint r3" "0 \<le> sint r4"
    by linarith
  then show ?thesis
  proof cases
    case 1
    then have "JNI_OnLoad vm w
        = (JNI_ERR, GetEnv_call JNI_VERSION_1_6 # take 1 (registration_sequence env), w2)"
      by (simp add: run)
    then show ?thesis by (intro exI [of _ 1] exI [of _ w2]) simp
  next
    case 2
    then have "JNI_OnLoad vm w
        = (JNI_ERR, GetEnv_call JNI_VERSION_1_6 # take 2 (registration_sequence env), w3)"
      by (simp add: run)
    then show ?thesis by (intro exI [of _ 2] exI [of _ w3]) simp
  next
    case 3
    then have "JNI_OnLoad vm w
        = (JNI_ERR, GetEnv_call JNI_VERSION_1_6 # take 3 (registration_sequence env), w4)"
      by (simp add: run)
    then show ?thesis by (intro exI [of _ 3] exI [of _ w4]) simp
  next
    case 4
    then have "JNI_OnLoad vm w
        = (JNI_ERR, GetEnv_call JNI_VERSION_1_6 # take 4 (registration_sequence env), w5)"
      by (simp add: run)
    then show ?thesis by (intro exI [of _ 4] exI [of _ w5]) simp
  next
    case 5
    then have "JNI_OnLoad vm w
        = (JNI_VERSION_1_6, GetEnv_call JNI_VERSION_1_6 # take 4 (registration_sequence env), w5)"
      by (simp add: run registration_sequence_def)
    then show ?thesis by (intro exI [of _ 4] exI [of _ w5]) simp
  qed
qed

lemma invoked_prefix:
  assumes "1 \<le> n" and "n \<le> 4"
  shows "map routine_of (GetEnv_call v # take n (registration_sequence env))
           = take (Suc n) [Fn_GetEnv, Fn_TetheringUtils, Fn_BpfMap, Fn_TcUtils, Fn_BpfCoordinator]"
proof -
  from assms have "n = 1 \<or> n = 2 \<or> n = 3 \<or> n = 4"
    by arith
  then show ?thesis
    by (elim disjE) (simp_all add: registration_sequence_def)
qed

lemma registrations_prefix:
  "filter is_registration (GetEnv_call v # take n (registration_sequence env))
     = take n (registration_sequence env)"
proof -
  have "filter is_registration (take n (registration_sequence env))
      = take n (registration_sequence env)"
    by (rule filter_True) (auto dest!: in_set_takeD
        simp add: registration_sequence_def is_registration_def)
  then show ?thesis
    by (simp add: is_registration_def)
qed

text \<open>Routines that \<open>JNI_OnLoad\<close> does not reach through a given field of the host.\<close>

lemma calls_ignore_BpfUtils:
  "call_GetEnv (vm \<lparr> register_com_android_networkstack_tethering_BpfUtils := g \<rparr>)
     = call_GetEnv vm"
  "call_android_log_print (vm \<lparr> register_com_android_networkstack_tethering_BpfUtils := g \<rparr>)
     = call_android_log_print vm"
  "call_register_TetheringUtils (vm \<lparr> register_com_android_networkstack_tethering_BpfUtils := g \<rparr>)
     = call_register_TetheringUtils vm"
  "call_register_BpfMap (vm \<lparr> register_com_android_networkstack_tethering_BpfUtils := g \<rparr>)
     = call_register_BpfMap vm"
  "call_register_TcUtils (vm \<lparr> register_com_android_networkstack_tethering_BpfUtils := g \<rparr>)
     = call_register_TcUtils vm"
  "call_register_BpfCoordinator (vm \<lparr> register_com_android_networkstack_tethering_BpfUtils := g \<rparr>)
     = call_register_BpfCoordinator vm"
  by (simp_all add: fun_eq_iff call_GetEnv_def call_android_log_print_def
      call_register_TetheringUtils_def call_register_BpfMap_def call_register_TcUtils_def
      call_register_BpfCoordinator_def)

lemma calls_ignore_logger_after_ok:
  "call_GetEnv (vm \<lparr> android_log_print := g \<rparr>) = call_GetEnv vm"
  "call_register_TetheringUtils (vm \<lparr> android_log_print := g \<rparr>)
     = call_register_TetheringUtils vm"
  "call_register_BpfMap (vm \<lparr> android_log_print := g \<rparr>) = call_register_BpfMap vm"
  "call_register_TcUtils (vm \<lparr> android_log_print := g \<rparr>) = call_register_TcUtils vm"
  "call_register_BpfCoordinator (vm \<lparr> android_log_print := g \<rparr>)
     = call_register_BpfCoordinator vm"
  by (simp_all add: fun_eq_iff call_GetEnv_def
      call_register_TetheringUtils_def call_register_BpfMap_def call_register_TcUtils_def
      call_register_BpfCoordinator_def)

lemma map_results_simps:
  "GetEnv (map_results f vm) = GetEnv vm"
  "android_log_print (map_results f vm) = android_log_print vm"
  "register_com_android_networkstack_tethering_util_TetheringUtils vm w e = (r, w')
     \<Longrightarrow> register_com_android_networkstack_tethering_util_TetheringUtils (map_results f vm) w e
           = (f r, w')"
  "register_com_android_net_module_util_BpfMap vm w e n = (r, w')
     \<Longrightarrow> register_com_android_net_module_util_BpfMap (map_results f vm) w e n = (f r, w')"
  "register_com_android_net_module_util_TcUtils vm w e n = (r, w')
     \<Longrightarrow> register_com_android_net_module_util_TcUtils (map_results f vm) w e n = (f r, w')"
  "register_com_android_networkstack_tethering_BpfCoordinator vm w e = (r, w')
     \<Longrightarrow> register_com_android_networkstack_tethering_BpfCoordinator (map_results f vm) w e
           = (f r, w')"
  by (simp_all add: map_results_def)

section \<open>Properties of the load\<close>

text \<open>
  In the statements below the hypotheses of the form \<open>f vm w env = (r, w')\<close> only give names
  to what the collaborators answer: \<open>w1\<close> is the outside state after \<open>GetEnv\<close>, and \<open>r1\<close>,
  \<open>r2\<close>, \<open>r3\<close>, \<open>r4\<close> are the results of the four registration routines, each one called
  in the state its predecessor left.
\<close>

text \<open>
  Claim C1. When the environment is obtained and the four registration calls (TetheringUtils,
  BpfMap, TcUtils, BpfCoordinator) all return non-negative values, \<open>JNI_OnLoad\<close> returns
  \<open>JNI_VERSION_1_6\<close>. In particular it does so when the mocked registrations return
  0, 0, 0, 0.
\<close>

theorem all_succeed_returns_version:
  assumes "GetEnv vm w JNI_VERSION_1_6 = ((JNI_OK, env), w1)"
    and "register_com_android_networkstack_tethering_util_TetheringUtils vm w1 env = (r1, w2)"
    and "register_com_android_net_module_util_BpfMap vm w2 env BpfMap_class = (r2, w3)"
    and "register_com_android_net_module_util_TcUtils vm w3 env TcUtils_class = (r3, w4)"
    and "register_com_android_networkstack_tethering_BpfCoordinator vm w4 env = (r4, w5)"
    and "0 \<le> sint r1" and "0 \<le> sint r2" and "0 \<le> sint r3" and "0 \<le> sint r4"
  shows "returned (JNI_OnLoad vm w) = JNI_VERSION_1_6 \<and>
         returned (JNI_OnLoad (mock_host JNI_OK env) [0, 0, 0, 0]) = JNI_VERSION_1_6"
proof
  have "JNI_OnLoad vm w
      = (JNI_VERSION_1_6, GetEnv_call JNI_VERSION_1_6 # registration_sequence env, w5)"
    using assms by (simp add: JNI_OnLoad_GetEnv_ok [OF assms(1-5)])
  then show "returned (JNI_OnLoad vm w) = JNI_VERSION_1_6"
    by (simp add: returned_def)
next
  show "returned (JNI_OnLoad (mock_host JNI_OK env) [0, 0, 0, 0]) = JNI_VERSION_1_6"
    by (simp add: mock_run_ok returned_def)
qed

theorem all_succeed_returns_version_witness:
  "GetEnv (mock_host JNI_OK (1::nat)) [0, 7, 0, 2147483647] JNI_VERSION_1_6
     = ((JNI_OK, 1), [0, 7, 0, 2147483647]) \<and>
   register_com_android_networkstack_tethering_util_TetheringUtils
     (mock_host JNI_OK (1::nat)) [0, 7, 0, 2147483647] 1 = (0, [7, 0, 2147483647]) \<and>
   register_com_android_net_module_util_BpfMap
     (mock_host JNI_OK (1::nat)) [7, 0, 2147483647] 1 BpfMap_class = (7, [0, 2147483647]) \<and>
   register_com_android_net_module_util_TcUtils
     (mock_host JNI_OK (1::nat)) [0, 2147483647] 1 TcUtils_class = (0, [2147483647]) \<and>
   register_com_android_networkstack_tethering_BpfCoordinator
     (mock_host JNI_OK (1::nat)) [2147483647] 1 = (2147483647, []) \<and>
   0 \<le> sint (0 :: c_int) \<and> 0 \<le> sint (7 :: c_int) \<and> 0 \<le> sint (2147483647 :: c_int) \<and>
   returned (JNI_OnLoad (mock_host JNI_OK (1::nat)) [0, 7, 0, 2147483647]) = JNI_VERSION_1_6"
  using all_succeed_returns_version
    [of "mock_host JNI_OK (1::nat)" "[0, 7, 0, 2147483647]" 1 "[0, 7, 0, 2147483647]"
        0 "[7, 0, 2147483647]" 7 "[0, 2147483647]" 0 "[2147483647]" 2147483647 "[]"]
  by (simp add: mock_host_simps next_result_simps)



text \<open>
  Claim C2. For every \<open>N\<close> from 1 to 4: when the \<open>N\<close>th registration call (in the order
  utility table, map table, TC table, coordinator table) returns a negative value and the
  ones before it returned non-negative values, \<open>JNI_OnLoad\<close> returns \<open>JNI_ERR\<close>, the calls
  made are \<open>GetEnv\<close> and the first \<open>N\<close> registrations, and no registration routine after
  the \<open>N\<close>th is invoked. In particular, with mocked results 0, -1, a, b (any \<open>a\<close>, \<open>b\<close>) the
  result is \<open>JNI_ERR\<close> and only the first two registration routines are invoked.
\<close>

theorem nth_failure_returns_error:
  assumes "GetEnv vm w JNI_VERSION_1_6 = ((JNI_OK, env), w1)"
    and "register_com_android_networkstack_tethering_util_TetheringUtils vm w1 env = (r1, w2)"
    and "register_com_android_net_module_util_BpfMap vm w2 env BpfMap_class = (r2, w3)"
    and "register_com_android_net_module_util_TcUtils vm w3 env TcUtils_class = (r3, w4)"
    and "register_com_android_networkstack_tethering_BpfCoordinator vm w4 env = (r4, w5)"
    and "1 \<le> N" and "N \<le> 4"
    and "sint ([r1, r2, r3, r4] ! (N - 1)) < 0"
    and "\<forall>i < N - 1. 0 \<le> sint ([r1, r2, r3, r4] ! i)"
  shows "returned (JNI_OnLoad vm w) = JNI_ERR \<and>
         calls_made (JNI_OnLoad vm w)
           = GetEnv_call JNI_VERSION_1_6 # take N (registration_sequence env) \<and>
         (\<forall>k. N \<le> k \<and> k < 4 \<longrightarrow>
            routine_of (registration_sequence env ! k) \<notin> set (invoked (JNI_OnLoad vm w))) \<and>
         (\<forall>a b.
            returned (JNI_OnLoad (mock_host JNI_OK env) [0, - 1, a, b]) = JNI_ERR \<and>
            invoked (JNI_OnLoad (mock_host JNI_OK env) [0, - 1, a, b])
              = [Fn_GetEnv, Fn_TetheringUtils, Fn_BpfMap])"
proof -
  note run = JNI_OnLoad_GetEnv_ok [OF assms(1-5)]
  from assms(6,7) have "N = 1 \<or> N = 2 \<or> N = 3 \<or> N = 4"
    by arith
  then have general: "JNI_OnLoad vm w
      = (JNI_ERR, GetEnv_call JNI_VERSION_1_6 # take N (registration_sequence env),
         [w2, w3, w4, w5] ! (N - 1))"
  proof (elim disjE)
    assume "N = 1"
    with assms(8) show ?thesis by (simp add: run)
  next
    assume "N = 2"
    with assms(8,9) show ?thesis by (simp add: run)
  next
    assume N: "N = 3"
    with assms(9) have "0 \<le> sint r1" and "0 \<le> sint r2"
      by (simp_all add: numeral_2_eq_2 All_less_Suc)
    with N assms(8) show ?thesis by (simp add: run)
  next
    assume N: "N = 4"
    with assms(9) have "0 \<le> sint r1" and "0 \<le> sint r2" and "0 \<le> sint r3"
      by (simp_all add: numeral_3_eq_3 All_less_Suc)
    with N assms(8) show ?thesis by (simp add: run)
  qed
  have later: "routine_of (registration_sequence env ! k) \<notin> set (invoked (JNI_OnLoad vm w))"
    if "N \<le> k" and "k < 4" for k
  proof -
    from that assms(6) have "(N = 1 \<or> N = 2 \<or> N = 3 \<or> N = 4) \<and> (k = 1 \<or> k = 2 \<or> k = 3)"
      by arith
    with that show ?thesis
      unfolding general invoked_def calls_made_def
      by (auto simp add: registration_sequence_def)
  qed
  have mock: "JNI_OnLoad (mock_host JNI_OK env) [0, - 1, a, b]
      = (JNI_ERR, GetEnv_call JNI_VERSION_1_6 # take 2 (registration_sequence env), [a, b])"
    for a b
    by (simp add: mock_run_ok)
  have "returned (JNI_OnLoad vm w) = JNI_ERR"
    by (simp add: general returned_def)
  moreover have "calls_made (JNI_OnLoad vm w)
      = GetEnv_call JNI_VERSION_1_6 # take N (registration_sequence env)"
    by (simp add: general calls_made_def)
  moreover have "\<forall>a b.
      returned (JNI_OnLoad (mock_host JNI_OK env) [0, - 1, a, b]) = JNI_ERR \<and>
      invoked (JNI_OnLoad (mock_host JNI_OK env) [0, - 1, a, b])
        = [Fn_GetEnv, Fn_TetheringUtils, Fn_BpfMap]"
    by (simp add: mock returned_def invoked_def calls_made_def registration_sequence_def)
  ultimately show ?thesis
    using later by blast
qed

theorem nth_failure_returns_error_witness:
  "GetEnv (mock_host JNI_OK (1::nat)) [5, 0, - 2147483648, 9] JNI_VERSION_1_6
     = ((JNI_OK, 1), [5, 0, - 2147483648, 9]) \<and>
   register_com_android_networkstack_tethering_util_TetheringUtils
     (mock_host JNI_OK (1::nat)) [5, 0, - 2147483648, 9] 1 = (5, [0, - 2147483648, 9]) \<and>
   register_com_android_net_module_util_BpfMap
     (mock_host JNI_OK (1::nat)) [0, - 2147483648, 9] 1 BpfMap_class = (0, [- 2147483648, 9]) \<and>
   register_com_android_net_module_util_TcUtils
     (mock_host JNI_OK (1::nat)) [- 2147483648, 9] 1 TcUtils_class = (- 2147483648, [9]) \<and>
   register_com_android_networkstack_tethering_BpfCoordinator
     (mock_host JNI_OK (1::nat)) [9] 1 = (9, []) \<and>
   (1::nat) \<le> 3 \<and> (3::nat) \<le> 4 \<and>
   sint ([5, 0, - 2147483648, 9 :: c_int] ! (3 - 1)) < 0 \<and>
   0 \<le> sint ([5, 0, - 2147483648, 9 :: c_int] ! 0) \<and>
   0 \<le> sint ([5, 0, - 2147483648, 9 :: c_int] ! 1) \<and>
   returned (JNI_OnLoad (mock_host JNI_OK (1::nat)) [5, 0, - 2147483648, 9]) = JNI_ERR \<and>
   calls_made (JNI_OnLoad (mock_host JNI_OK (1::nat)) [5, 0, - 2147483648, 9])
     = [GetEnv_call JNI_VERSION_1_6, TetheringUtils_call 1, BpfMap_call 1 BpfMap_class,
        TcUtils_call 1 TcUtils_class] \<and>
   Fn_BpfCoordinator \<notin> set (invoked (JNI_OnLoad (mock_host JNI_OK (1::nat)) [5, 0, - 2147483648, 9]))"
proof -
  have hyps:
    "GetEnv (mock_host JNI_OK (1::nat)) [5, 0, - 2147483648, 9] JNI_VERSION_1_6
       = ((JNI_OK, 1), [5, 0, - 2147483648, 9])"
    "register_com_android_networkstack_tethering_util_TetheringUtils
       (mock_host JNI_OK (1::nat)) [5, 0, - 2147483648, 9] 1 = (5, [0, - 2147483648, 9])"
    "register_com_android_net_module_util_BpfMap
       (mock_host JNI_OK (1::nat)) [0, - 2147483648, 9] 1 BpfMap_class = (0, [- 2147483648, 9])"
    "register_com_android_net_module_util_TcUtils
       (mock_host JNI_OK (1::nat)) [- 2147483648, 9] 1 TcUtils_class = (- 2147483648, [9])"
    "register_com_android_networkstack_tethering_BpfCoordinator
       (mock_host JNI_OK (1::nat)) [9] 1 = (9, [])"
    "(1::nat) \<le> 3" "(3::nat) \<le> 4"
    "sint ([5, 0, - 2147483648, 9 :: c_int] ! (3 - 1)) < 0"
    "\<forall>i < (3::nat) - 1. 0 \<le> sint ([5, 0, - 2147483648, 9 :: c_int] ! i)"
    by (simp_all add: mock_host_simps next_result_simps numeral_2_eq_2 All_less_Suc)
  note concl = nth_failure_returns_error [OF hyps]
  from concl have "routine_of (registration_sequence (1::nat) ! 3)
      \<notin> set (invoked (JNI_OnLoad (mock_host JNI_OK (1::nat)) [5, 0, - 2147483648, 9]))"
    by simp
  with concl hyps(1-8) show ?thesis
    by (simp add: registration_sequence_def)
qed

text \<open>
  Claim C3. When environment acquisition fails (the \<open>GetEnv\<close> request for
  \<open>JNI_VERSION_1_6\<close> answers anything but \<open>JNI_OK\<close>), \<open>JNI_OnLoad\<close> returns \<open>JNI_ERR\<close>, emits
  exactly one log line, of severity fatal, and invokes no registration routine.
\<close>

theorem GetEnv_failure_logs_once_and_registers_nothing:
  assumes "GetEnv vm w JNI_VERSION_1_6 = ((status, env), w1)"
    and "status \<noteq> JNI_OK"
  shows "returned (JNI_OnLoad vm w) = JNI_ERR \<and>
         filter is_log (calls_made (JNI_OnLoad vm w))
           = [Log_call ANDROID_LOG_FATAL LOG_TAG ''ERROR: GetEnv failed''] \<and>
         registrations (JNI_OnLoad vm w) = [] \<and>
         invoked (JNI_OnLoad vm w) = [Fn_GetEnv, Fn_android_log_print]"
  by (simp add: JNI_OnLoad_GetEnv_failed [OF assms] returned_def calls_made_def
      registrations_def invoked_def is_log_def is_registration_def fatal_line_def)

theorem GetEnv_failure_logs_once_and_registers_nothing_witness:
  "GetEnv (mock_host (- 3) (1::nat)) [0, 0, 0, 0] JNI_VERSION_1_6 = ((- 3, 1), [0, 0, 0, 0]) \<and>
   (- 3 :: jint) \<noteq> JNI_OK \<and>
   returned (JNI_OnLoad (mock_host (- 3) (1::nat)) [0, 0, 0, 0]) = JNI_ERR \<and>
   filter is_log (calls_made (JNI_OnLoad (mock_host (- 3) (1::nat)) [0, 0, 0, 0]))
     = [Log_call ANDROID_LOG_FATAL LOG_TAG ''ERROR: GetEnv failed''] \<and>
   registrations (JNI_OnLoad (mock_host (- 3) (1::nat)) [0, 0, 0, 0]) = [] \<and>
   invoked (JNI_OnLoad (mock_host (- 3) (1::nat)) [0, 0, 0, 0])
     = [Fn_GetEnv, Fn_android_log_print]"
proof -
  have hyps:
    "GetEnv (mock_host (- 3) (1::nat)) [0, 0, 0, 0] JNI_VERSION_1_6 = ((- 3, 1), [0, 0, 0, 0])"
    "(- 3 :: jint) \<noteq> JNI_OK"
    by (simp_all add: mock_host_simps JNI_OK_def)
  from GetEnv_failure_logs_once_and_registers_nothing [OF hyps] hyps show ?thesis
    by simp
qed

text \<open>
  Claim C4. In every execution the registration calls made are an initial part of the fixed
  sequence utility table, map table, TC table, coordinator table: the calls up to and
  including the first one that fails, or all four when none fails. No call of that sequence
  occurs twice, and every call made receives the environment handle that \<open>GetEnv\<close> stored
  at the start of the load. (When \<open>GetEnv\<close> fails, no registration call is made.)
\<close>

theorem registrations_once_in_order_same_handle:
  assumes "GetEnv vm w JNI_VERSION_1_6 = ((status, env), w1)"
    and "register_com_android_networkstack_tethering_util_TetheringUtils vm w1 env = (r1, w2)"
    and "register_com_android_net_module_util_BpfMap vm w2 env BpfMap_class = (r2, w3)"
    and "register_com_android_net_module_util_TcUtils vm w3 env TcUtils_class = (r3, w4)"
    and "register_com_android_networkstack_tethering_BpfCoordinator vm w4 env = (r4, w5)"
  shows "registrations (JNI_OnLoad vm w)
           = (if status = JNI_OK
              then take (Suc (length (takeWhile (\<lambda>r. 0 \<le> sint r) [r1, r2, r3, r4])))
                     (registration_sequence env)
              else []) \<and>
         map routine_of (registration_sequence env)
           = [Fn_TetheringUtils, Fn_BpfMap, Fn_TcUtils, Fn_BpfCoordinator] \<and>
         distinct (registrations (JNI_OnLoad vm w)) \<and>
         (\<forall>c \<in> set (registrations (JNI_OnLoad vm w)). handle_of c = Some env)"
proof (cases "status = JNI_OK")
  case False
  from JNI_OnLoad_GetEnv_failed [OF assms(1) False] False show ?thesis
    by (simp add: registrations_def calls_made_def is_registration_def fatal_line_def
        registration_sequence_def)
next
  case True
  note run = JNI_OnLoad_GetEnv_ok [OF assms(1) [unfolded True] assms(2-5)]
  have regs: "registrations (JNI_OnLoad vm w)
      = take (Suc (length (takeWhile (\<lambda>r. 0 \<le> sint r) [r1, r2, r3, r4])))
          (registration_sequence env)"
    by (simp add: run registrations_def calls_made_def is_registration_def
        registration_sequence_def)
  have "distinct (registration_sequence env)"
    by (simp add: registration_sequence_def)
  then have "distinct (registrations (JNI_OnLoad vm w))"
    unfolding regs by (rule distinct_take)
  moreover have "handle_of c = Some env" if "c \<in> set (registrations (JNI_OnLoad vm w))" for c
  proof -
    from that have "c \<in> set (registration_sequence env)"
      unfolding regs by (rule in_set_takeD)
    then show ?thesis
      by (auto simp add: registration_sequence_def)
  qed
  ultimately show ?thesis
    using regs True by (simp add: registration_sequence_def)
qed

theorem registrations_once_in_order_same_handle_witness:
  "GetEnv (mock_host JNI_OK (1::nat)) [3, - 7, 1, 1] JNI_VERSION_1_6
     = ((JNI_OK, 1), [3, - 7, 1, 1]) \<and>
   register_com_android_networkstack_tethering_util_TetheringUtils
     (mock_host JNI_OK (1::nat)) [3, - 7, 1, 1] 1 = (3, [- 7, 1, 1]) \<and>
   register_com_android_net_module_util_BpfMap
     (mock_host JNI_OK (1::nat)) [- 7, 1, 1] 1 BpfMap_class = (- 7, [1, 1]) \<and>
   register_com_android_net_module_util_TcUtils
     (mock_host JNI_OK (1::nat)) [1, 1] 1 TcUtils_class = (1, [1]) \<and>
   register_com_android_networkstack_tethering_BpfCoordinator
     (mock_host JNI_OK (1::nat)) [1] 1 = (1, []) \<and>
   registrations (JNI_OnLoad (mock_host JNI_OK (1::nat)) [3, - 7, 1, 1])
     = [TetheringUtils_call 1, BpfMap_call 1 BpfMap_class] \<and>
   distinct (registrations (JNI_OnLoad (mock_host JNI_OK (1::nat)) [3, - 7, 1, 1])) \<and>
   map handle_of (registrations (JNI_OnLoad (mock_host JNI_OK (1::nat)) [3, - 7, 1, 1]))
     = [Some 1, Some 1]"
proof -
  have hyps:
    "GetEnv (mock_host JNI_OK (1::nat)) [3, - 7, 1, 1] JNI_VERSION_1_6
       = ((JNI_OK, 1), [3, - 7, 1, 1])"
    "register_com_android_networkstack_tethering_util_TetheringUtils
       (mock_host JNI_OK (1::nat)) [3, - 7, 1, 1] 1 = (3, [- 7, 1, 1])"
    "register_com_android_net_module_util_BpfMap
       (mock_host JNI_OK (1::nat)) [- 7, 1, 1] 1 BpfMap_class = (- 7, [1, 1])"
    "register_com_android_net_module_util_TcUtils
       (mock_host JNI_OK (1::nat)) [1, 1] 1 TcUtils_class = (1, [1])"
    "register_com_android_networkstack_tethering_BpfCoordinator
       (mock_host JNI_OK (1::nat)) [1] 1 = (1, [])"
    by (simp_all add: mock_host_simps next_result_simps)
  note concl = registrations_once_in_order_same_handle [OF hyps]
  have "registrations (JNI_OnLoad (mock_host JNI_OK (1::nat)) [3, - 7, 1, 1])
      = [TetheringUtils_call 1, BpfMap_call 1 BpfMap_class]"
    using concl by (simp add: registration_sequence_def)
  with concl hyps show ?thesis
    by simp
qed

text \<open>
  Claim C5. A negative return value is the only failure signal of a registration call. The
  load succeeds exactly when all four results are non-negative (zero included), the number
  of registration calls made is one more than the number of leading non-negative results
  (at most four), the value returned to the host is always one of the two fixed tokens
  (never a registration result), and replacing every result by any other value of the same
  sign changes nothing in the outcome.
\<close>

theorem only_the_sign_of_a_result_matters:
  assumes "GetEnv vm w JNI_VERSION_1_6 = ((status, env), w1)"
    and "register_com_android_networkstack_tethering_util_TetheringUtils vm w1 env = (r1, w2)"
    and "register_com_android_net_module_util_BpfMap vm w2 env BpfMap_class = (r2, w3)"
    and "register_com_android_net_module_util_TcUtils vm w3 env TcUtils_class = (r3, w4)"
    and "register_com_android_networkstack_tethering_BpfCoordinator vm w4 env = (r4, w5)"
    and "\<forall>r. (sint (f r) < 0) = (sint r < 0)"
  shows "(status = JNI_OK \<longrightarrow>
            returned (JNI_OnLoad vm w)
              = (if 0 \<le> sint r1 \<and> 0 \<le> sint r2 \<and> 0 \<le> sint r3 \<and> 0 \<le> sint r4
                 then JNI_VERSION_1_6 else JNI_ERR)) \<and>
         (status = JNI_OK \<longrightarrow>
            length (registrations (JNI_OnLoad vm w))
              = min 4 (Suc (length (takeWhile (\<lambda>r. 0 \<le> sint r) [r1, r2, r3, r4])))) \<and>
         (returned (JNI_OnLoad vm w) = JNI_ERR \<or> returned (JNI_OnLoad vm w) = JNI_VERSION_1_6) \<and>
         JNI_OnLoad (map_results f vm) w = JNI_OnLoad vm w"
proof (cases "status = JNI_OK")
  case False
  have "GetEnv (map_results f vm) w JNI_VERSION_1_6 = ((status, env), w1)"
    using assms(1) by (simp add: map_results_simps)
  from JNI_OnLoad_GetEnv_failed [OF this False] JNI_OnLoad_GetEnv_failed [OF assms(1) False] False
  show ?thesis
    by (simp add: map_results_simps returned_def)
next
  case True
  note run = JNI_OnLoad_GetEnv_ok [OF assms(1) [unfolded True] assms(2-5)]
  have "GetEnv (map_results f vm) w JNI_VERSION_1_6 = ((JNI_OK, env), w1)"
    using assms(1) True by (simp add: map_results_simps)
  note run' = JNI_OnLoad_GetEnv_ok [OF this
      map_results_simps(3) [OF assms(2)] map_results_simps(4) [OF assms(3)]
      map_results_simps(5) [OF assms(4)] map_results_simps(6) [OF assms(5)]]
  have same: "JNI_OnLoad (map_results f vm) w = JNI_OnLoad vm w"
    unfolding run run' using assms(6) by simp
  have token: "returned (JNI_OnLoad vm w)
      = (if 0 \<le> sint r1 \<and> 0 \<le> sint r2 \<and> 0 \<le> sint r3 \<and> 0 \<le> sint r4
         then JNI_VERSION_1_6 else JNI_ERR)"
    unfolding run by (simp add: returned_def)
  have count: "length (registrations (JNI_OnLoad vm w))
      = min 4 (Suc (length (takeWhile (\<lambda>r. 0 \<le> sint r) [r1, r2, r3, r4])))"
    unfolding run
    by (simp add: registrations_def calls_made_def is_registration_def registration_sequence_def)
  from token have "returned (JNI_OnLoad vm w) = JNI_ERR \<or> returned (JNI_OnLoad vm w) = JNI_VERSION_1_6"
    by simp
  with same token count show ?thesis
    by simp
qed


theorem only_the_sign_of_a_result_matters_witness:
  "GetEnv (mock_host JNI_OK (1::nat)) [0, 12, - 5, 2] JNI_VERSION_1_6
     = ((JNI_OK, 1), [0, 12, - 5, 2]) \<and>
   register_com_android_networkstack_tethering_util_TetheringUtils
     (mock_host JNI_OK (1::nat)) [0, 12, - 5, 2] 1 = (0, [12, - 5, 2]) \<and>
   register_com_android_net_module_util_BpfMap
     (mock_host JNI_OK (1::nat)) [12, - 5, 2] 1 BpfMap_class = (12, [- 5, 2]) \<and>
   register_com_android_net_module_util_TcUtils
     (mock_host JNI_OK (1::nat)) [- 5, 2] 1 TcUtils_class = (- 5, [2]) \<and>
   register_com_android_networkstack_tethering_BpfCoordinator
     (mock_host JNI_OK (1::nat)) [2] 1 = (2, []) \<and>
   (\<forall>r :: c_int. (sint (if sint r < 0 then - 2147483648 else 0 :: c_int) < 0) = (sint r < 0)) \<and>
   returned (JNI_OnLoad (mock_host JNI_OK (1::nat)) [0, 12, - 5, 2]) = JNI_ERR \<and>
   length (registrations (JNI_OnLoad (mock_host JNI_OK (1::nat)) [0, 12, - 5, 2])) = 3 \<and>
   JNI_OnLoad
     (map_results (\<lambda>r. if sint r < 0 then - 2147483648 else 0) (mock_host JNI_OK (1::nat)))
     [0, 12, - 5, 2]
     = JNI_OnLoad (mock_host JNI_OK (1::nat)) [0, 12, - 5, 2]"
proof -
  have hyps:
    "GetEnv (mock_host JNI_OK (1::nat)) [0, 12, - 5, 2] JNI_VERSION_1_6
       = ((JNI_OK, 1), [0, 12, - 5, 2])"
    "register_com_android_networkstack_tethering_util_TetheringUtils
       (mock_host JNI_OK (1::nat)) [0, 12, - 5, 2] 1 = (0, [12, - 5, 2])"
    "register_com_android_net_module_util_BpfMap
       (mock_host JNI_OK (1::nat)) [12, - 5, 2] 1 BpfMap_class = (12, [- 5, 2])"
    "register_com_android_net_module_util_TcUtils
       (mock_host JNI_OK (1::nat)) [- 5, 2] 1 TcUtils_class = (- 5, [2])"
    "register_com_android_networkstack_tethering_BpfCoordinator
       (mock_host JNI_OK (1::nat)) [2] 1 = (2, [])"
    "\<forall>r :: c_int. (sint (if sint r < 0 then - 2147483648 else 0 :: c_int) < 0) = (sint r < 0)"
    by (simp_all add: mock_host_simps next_result_simps)
  from only_the_sign_of_a_result_matters [OF hyps] hyps show ?thesis
    by simp
qed

text \<open>
  Claim C6. The load invokes at most the four registration routines of the fixed sequence,
  and exactly those four when it succeeds. The fifth declared routine, the one for
  \<open>BpfUtils\<close>, is never invoked: no call to it occurs in any execution, and the outcome
  of the load is the same whatever that routine is.
\<close>

theorem BpfUtils_is_never_invoked:
  "Fn_BpfUtils \<notin> set (invoked (JNI_OnLoad vm w)) \<and>
   JNI_OnLoad (vm \<lparr> register_com_android_networkstack_tethering_BpfUtils := g \<rparr>) w
     = JNI_OnLoad vm w \<and>
   length (registrations (JNI_OnLoad vm w)) \<le> 4 \<and>
   (returned (JNI_OnLoad vm w) = JNI_VERSION_1_6 \<longrightarrow>
      map routine_of (registrations (JNI_OnLoad vm w))
        = [Fn_TetheringUtils, Fn_BpfMap, Fn_TcUtils, Fn_BpfCoordinator])"
proof -
  have indep: "JNI_OnLoad (vm \<lparr> register_com_android_networkstack_tethering_BpfUtils := g \<rparr>) w
      = JNI_OnLoad vm w"
    unfolding JNI_OnLoad_def calls_ignore_BpfUtils ..
  obtain status env w1 where env: "GetEnv vm w JNI_VERSION_1_6 = ((status, env), w1)"
    by (metis surj_pair)
  have rest: "Fn_BpfUtils \<notin> set (invoked (JNI_OnLoad vm w)) \<and>
      length (registrations (JNI_OnLoad vm w)) \<le> 4 \<and>
      (returned (JNI_OnLoad vm w) = JNI_VERSION_1_6 \<longrightarrow>
         map routine_of (registrations (JNI_OnLoad vm w))
           = [Fn_TetheringUtils, Fn_BpfMap, Fn_TcUtils, Fn_BpfCoordinator])"
  proof (cases "status = JNI_OK")
    case False
    from JNI_OnLoad_GetEnv_failed [OF env False] tokens_differ show ?thesis
      by (simp add: invoked_def registrations_def calls_made_def returned_def
          is_registration_def fatal_line_def)
  next
    case True
    from JNI_OnLoad_ok_shape [OF env [unfolded True]]
    obtain n w' where n: "1 \<le> n" "n \<le> 4"
      and out: "JNI_OnLoad vm w
          = (JNI_ERR, GetEnv_call JNI_VERSION_1_6 # take n (registration_sequence env), w') \<or>
        n = 4 \<and> JNI_OnLoad vm w
          = (JNI_VERSION_1_6, GetEnv_call JNI_VERSION_1_6 # take n (registration_sequence env), w')"
      by blast
    from out have calls: "calls_made (JNI_OnLoad vm w)
        = GetEnv_call JNI_VERSION_1_6 # take n (registration_sequence env)"
      by (auto simp add: calls_made_def)
    have "Fn_BpfUtils \<notin> set (invoked (JNI_OnLoad vm w))"
      unfolding invoked_def calls invoked_prefix [OF n]
      by (auto dest!: in_set_takeD)
    moreover have regs: "registrations (JNI_OnLoad vm w) = take n (registration_sequence env)"
      unfolding registrations_def calls by (rule registrations_prefix)
    moreover have "length (registrations (JNI_OnLoad vm w)) \<le> 4"
      unfolding regs by (simp add: registration_sequence_def)
    moreover have "map routine_of (registrations (JNI_OnLoad vm w))
        = [Fn_TetheringUtils, Fn_BpfMap, Fn_TcUtils, Fn_BpfCoordinator]"
      if "returned (JNI_OnLoad vm w) = JNI_VERSION_1_6"
    proof -
      from that out tokens_differ have "n = 4"
        by (auto simp add: returned_def)
      then show ?thesis
        unfolding regs by (simp add: registration_sequence_def)
    qed
    ultimately show ?thesis
      by blast
  qed
  from indep rest show ?thesis
    by blast
qed

theorem BpfUtils_is_never_invoked_witness:
  "Fn_BpfUtils \<notin> set (invoked (JNI_OnLoad (mock_host JNI_OK (1::nat)) [0, 0, 0, 0])) \<and>
   returned (JNI_OnLoad (mock_host JNI_OK (1::nat)) [0, 0, 0, 0]) = JNI_VERSION_1_6 \<and>
   map routine_of (registrations (JNI_OnLoad (mock_host JNI_OK (1::nat)) [0, 0, 0, 0]))
     = [Fn_TetheringUtils, Fn_BpfMap, Fn_TcUtils, Fn_BpfCoordinator]"
proof -
  have "returned (JNI_OnLoad (mock_host JNI_OK (1::nat)) [0, 0, 0, 0]) = JNI_VERSION_1_6"
    by (simp add: mock_run_ok returned_def)
  with BpfUtils_is_never_invoked [of "mock_host JNI_OK (1::nat)" "[0, 0, 0, 0]"]
  show ?thesis
    by simp
qed

text \<open>
  Claim C7. \<open>JNI_OnLoad\<close> calls the logger exactly when \<open>GetEnv\<close> does not answer \<open>JNI_OK\<close>.
  Once the environment handle is obtained no log line is emitted, whatever the registration
  routines return, and the outcome does not depend on the logger at all: a failing
  registration shows only in the returned token.
\<close>

theorem log_line_only_when_GetEnv_fails:
  assumes "GetEnv vm w JNI_VERSION_1_6 = ((status, env), w1)"
  shows "(Fn_android_log_print \<in> set (invoked (JNI_OnLoad vm w))) = (status \<noteq> JNI_OK) \<and>
         (status = JNI_OK \<longrightarrow> filter is_log (calls_made (JNI_OnLoad vm w)) = []) \<and>
         (status = JNI_OK \<longrightarrow>
            JNI_OnLoad (vm \<lparr> android_log_print := g \<rparr>) w = JNI_OnLoad vm w)"
proof (cases "status = JNI_OK")
  case False
  from JNI_OnLoad_GetEnv_failed [OF assms False] False show ?thesis
    by (simp add: invoked_def calls_made_def fatal_line_def)
next
  case True
  from JNI_OnLoad_ok_shape [OF assms [unfolded True]]
  obtain n w' where n: "1 \<le> n" "n \<le> 4"
    and out: "JNI_OnLoad vm w
        = (JNI_ERR, GetEnv_call JNI_VERSION_1_6 # take n (registration_sequence env), w') \<or>
      n = 4 \<and> JNI_OnLoad vm w
        = (JNI_VERSION_1_6, GetEnv_call JNI_VERSION_1_6 # take n (registration_sequence env), w')"
    by blast
  from out have calls: "calls_made (JNI_OnLoad vm w)
      = GetEnv_call JNI_VERSION_1_6 # take n (registration_sequence env)"
    by (auto simp add: calls_made_def)
  have no_log: "Fn_android_log_print \<notin> set (invoked (JNI_OnLoad vm w))"
    unfolding invoked_def calls invoked_prefix [OF n]
    by (auto dest!: in_set_takeD)
  then have "filter is_log (calls_made (JNI_OnLoad vm w)) = []"
    by (force simp add: invoked_def is_log_def filter_empty_conv)
  moreover have "JNI_OnLoad (vm \<lparr> android_log_print := g \<rparr>) w = JNI_OnLoad vm w"
  proof -
    have "GetEnv (vm \<lparr> android_log_print := g \<rparr>) w JNI_VERSION_1_6 = ((JNI_OK, env), w1)"
      using assms True by simp
    then show ?thesis
      using assms True
      unfolding JNI_OnLoad_def calls_ignore_logger_after_ok
      by (simp add: call_GetEnv_def)
  qed
  ultimately show ?thesis
    using no_log True by simp
qed

theorem log_line_only_when_GetEnv_fails_witness:
  "GetEnv (mock_host JNI_OK (1::nat)) [0, 0, - 1, 0] JNI_VERSION_1_6
     = ((JNI_OK, 1), [0, 0, - 1, 0]) \<and>
   returned (JNI_OnLoad (mock_host JNI_OK (1::nat)) [0, 0, - 1, 0]) = JNI_ERR \<and>
   Fn_android_log_print \<notin> set (invoked (JNI_OnLoad (mock_host JNI_OK (1::nat)) [0, 0, - 1, 0])) \<and>
   filter is_log (calls_made (JNI_OnLoad (mock_host JNI_OK (1::nat)) [0, 0, - 1, 0])) = []"
proof -
  have hyp: "GetEnv (mock_host JNI_OK (1::nat)) [0, 0, - 1, 0] JNI_VERSION_1_6
      = ((JNI_OK, 1), [0, 0, - 1, 0])"
    by (simp add: mock_host_simps)
  have "returned (JNI_OnLoad (mock_host JNI_OK (1::nat)) [0, 0, - 1, 0]) = JNI_ERR"
    by (simp add: mock_run_ok returned_def)
  with log_line_only_when_GetEnv_fails [OF hyp] hyp show ?thesis
    by simp
qed

text \<open>
  Claim C8. Two loads, possibly on different hosts and from different outside states, in
  which \<open>GetEnv\<close> succeeds in both or fails in both and the registration routines hand the
  same results to the load (\<open>results_seen\<close>: the results up to and including the first
  negative one), return the same token and invoke the same routines in the same order. When
  \<open>GetEnv\<close> stored the same handle in both, the calls agree with their arguments too.
\<close>

theorem same_answers_same_outcome:
  assumes "GetEnv vm w JNI_VERSION_1_6 = ((status, env), w1)"
    and "register_com_android_networkstack_tethering_util_TetheringUtils vm w1 env = (r1, w2)"
    and "register_com_android_net_module_util_BpfMap vm w2 env BpfMap_class = (r2, w3)"
    and "register_com_android_net_module_util_TcUtils vm w3 env TcUtils_class = (r3, w4)"
    and "register_com_android_networkstack_tethering_BpfCoordinator vm w4 env = (r4, w5)"
    and "GetEnv vm' v JNI_VERSION_1_6 = ((status', env'), v1)"
    and "register_com_android_networkstack_tethering_util_TetheringUtils vm' v1 env' = (s1, v2)"
    and "register_com_android_net_module_util_BpfMap vm' v2 env' BpfMap_class = (s2, v3)"
    and "register_com_android_net_module_util_TcUtils vm' v3 env' TcUtils_class = (s3, v4)"
    and "register_com_android_networkstack_tethering_BpfCoordinator vm' v4 env' = (s4, v5)"
    and "(status = JNI_OK) = (status' = JNI_OK)"
    and "status = JNI_OK \<longrightarrow> results_seen [r1, r2, r3, r4] = results_seen [s1, s2, s3, s4]"
  shows "returned (JNI_OnLoad vm w) = returned (JNI_OnLoad vm' v) \<and>
         invoked (JNI_OnLoad vm w) = invoked (JNI_OnLoad vm' v) \<and>
         (env = env' \<longrightarrow>
            calls_made (JNI_OnLoad vm w) = calls_made (JNI_OnLoad vm' v) \<and>
            registrations (JNI_OnLoad vm w) = registrations (JNI_OnLoad vm' v))"
proof (cases "status = JNI_OK")
  case False
  with assms(11) have False': "status' \<noteq> JNI_OK"
    by simp
  from JNI_OnLoad_GetEnv_failed [OF assms(1) False] JNI_OnLoad_GetEnv_failed [OF assms(6) False']
  show ?thesis
    by (simp add: returned_def calls_made_def registrations_def invoked_def)
next
  case True
  with assms(11) have True': "status' = JNI_OK"
    by simp
  note run = JNI_OnLoad_GetEnv_ok [OF assms(1) [unfolded True] assms(2-5)]
  note run' = JNI_OnLoad_GetEnv_ok [OF assms(6) [unfolded True'] assms(7-10)]
  from assms(12) True have signs:
    "(sint r1 < 0) = (sint s1 < 0)"
    "0 \<le> sint r1 \<Longrightarrow> (sint r2 < 0) = (sint s2 < 0)"
    "0 \<le> sint r1 \<Longrightarrow> 0 \<le> sint r2 \<Longrightarrow> (sint r3 < 0) = (sint s3 < 0)"
    "0 \<le> sint r1 \<Longrightarrow> 0 \<le> sint r2 \<Longrightarrow> 0 \<le> sint r3 \<Longrightarrow> (sint r4 < 0) = (sint s4 < 0)"
    by (auto simp add: results_seen_def split: if_splits)
  have "fst (JNI_OnLoad vm w) = fst (JNI_OnLoad vm' v) \<and>
      map routine_of (fst (snd (JNI_OnLoad vm w))) = map routine_of (fst (snd (JNI_OnLoad vm' v))) \<and>
      (env = env' \<longrightarrow> fst (snd (JNI_OnLoad vm w)) = fst (snd (JNI_OnLoad vm' v)))"
    unfolding run run' using signs
    by (cases "sint r1 < 0"; cases "sint r2 < 0"; cases "sint r3 < 0"; cases "sint r4 < 0")
      (simp_all add: not_less registration_sequence_def)
  then show ?thesis
    by (simp add: returned_def calls_made_def registrations_def invoked_def)
qed

theorem same_answers_same_outcome_witness:
  "GetEnv (mock_host JNI_OK (1::nat)) [0, - 1, 5, 5] JNI_VERSION_1_6
     = ((JNI_OK, 1), [0, - 1, 5, 5]) \<and>
   GetEnv (mock_host JNI_OK (1::nat)) [0, - 1, 9, - 9] JNI_VERSION_1_6
     = ((JNI_OK, 1), [0, - 1, 9, - 9]) \<and>
   results_seen [0, - 1, 5, 5] = results_seen [0, - 1, 9, - 9] \<and>
   returned (JNI_OnLoad (mock_host JNI_OK (1::nat)) [0, - 1, 5, 5])
     = returned (JNI_OnLoad (mock_host JNI_OK (1::nat)) [0, - 1, 9, - 9]) \<and>
   invoked (JNI_OnLoad (mock_host JNI_OK (1::nat)) [0, - 1, 5, 5])
     = invoked (JNI_OnLoad (mock_host JNI_OK (1::nat)) [0, - 1, 9, - 9]) \<and>
   calls_made (JNI_OnLoad (mock_host JNI_OK (1::nat)) [0, - 1, 5, 5])
     = calls_made (JNI_OnLoad (mock_host JNI_OK (1::nat)) [0, - 1, 9, - 9]) \<and>
   registrations (JNI_OnLoad (mock_host JNI_OK (1::nat)) [0, - 1, 5, 5])
     = registrations (JNI_OnLoad (mock_host JNI_OK (1::nat)) [0, - 1, 9, - 9])"
proof -
  have hyps:
    "GetEnv (mock_host JNI_OK (1::nat)) [0, - 1, 5, 5] JNI_VERSION_1_6
       = ((JNI_OK, 1), [0, - 1, 5, 5])"
    "register_com_android_networkstack_tethering_util_TetheringUtils
       (mock_host JNI_OK (1::nat)) [0, - 1, 5, 5] 1 = (0, [- 1, 5, 5])"
    "register_com_android_net_module_util_BpfMap
       (mock_host JNI_OK (1::nat)) [- 1, 5, 5] 1 BpfMap_class = (- 1, [5, 5])"
    "register_com_android_net_module_util_TcUtils
       (mock_host JNI_OK (1::nat)) [5, 5] 1 TcUtils_class = (5, [5])"
    "register_com_android_networkstack_tethering_BpfCoordinator
       (mock_host JNI_OK (1::nat)) [5] 1 = (5, [])"
    "GetEnv (mock_host JNI_OK (1::nat)) [0, - 1, 9, - 9] JNI_VERSION_1_6
       = ((JNI_OK, 1), [0, - 1, 9, - 9])"
    "register_com_android_networkstack_tethering_util_TetheringUtils
       (mock_host JNI_OK (1::nat)) [0, - 1, 9, - 9] 1 = (0, [- 1, 9, - 9])"
    "register_com_android_net_module_util_BpfMap
       (mock_host JNI_OK (1::nat)) [- 1, 9, - 9] 1 BpfMap_class = (- 1, [9, - 9])"
    "register_com_android_net_module_util_TcUtils
       (mock_host JNI_OK (1::nat)) [9, - 9] 1 TcUtils_class = (9, [- 9])"
    "register_com_android_networkstack_tethering_BpfCoordinator
       (mock_host JNI_OK (1::nat)) [- 9] 1 = (- 9, [])"
    "(JNI_OK = JNI_OK) = (JNI_OK = JNI_OK)"
    by (simp_all add: mock_host_simps next_result_simps)
  have seen: "results_seen [0, - 1, 5, 5] = results_seen [0, - 1, 9, - 9]"
    by (simp add: results_seen_def)
  then have "JNI_OK = JNI_OK \<longrightarrow> results_seen [0, - 1, 5, 5] = results_seen [0, - 1, 9, - 9]"
    by simp
  from same_answers_same_outcome [OF hyps this] hyps(1,6) seen show ?thesis
    by simp
qed

text \<open>
  Claim C9. Every call to the map-abstraction registration carries the class name
  \<open>com/android/networkstack/tethering/util/BpfMap\<close> and every call to the traffic-control
  registration carries \<open>com/android/networkstack/tethering/util/TcUtils\<close>; an execution that
  gets as far as one of these calls makes it with that name and the handle from \<open>GetEnv\<close>.
\<close>

theorem class_names_are_the_tethering_util_ones:
  assumes "GetEnv vm w JNI_VERSION_1_6 = ((status, env), w1)"
    and "register_com_android_networkstack_tethering_util_TetheringUtils vm w1 env = (r1, w2)"
    and "register_com_android_net_module_util_BpfMap vm w2 env BpfMap_class = (r2, w3)"
  shows "(\<forall>e name. BpfMap_call e name \<in> set (calls_made (JNI_OnLoad vm w)) \<longrightarrow>
            name = ''com/android/networkstack/tethering/util/BpfMap'') \<and>
         (\<forall>e name. TcUtils_call e name \<in> set (calls_made (JNI_OnLoad vm w)) \<longrightarrow>
            name = ''com/android/networkstack/tethering/util/TcUtils'') \<and>
         (status = JNI_OK \<and> 0 \<le> sint r1 \<longrightarrow>
            BpfMap_call env ''com/android/networkstack/tethering/util/BpfMap''
              \<in> set (calls_made (JNI_OnLoad vm w))) \<and>
         (status = JNI_OK \<and> 0 \<le> sint r1 \<and> 0 \<le> sint r2 \<longrightarrow>
            TcUtils_call env ''com/android/networkstack/tethering/util/TcUtils''
              \<in> set (calls_made (JNI_OnLoad vm w)))"
proof (cases "status = JNI_OK")
  case False
  from JNI_OnLoad_GetEnv_failed [OF assms(1) False] False show ?thesis
    by (simp add: calls_made_def fatal_line_def)
next
  case True
  obtain r3 w4 where c3:
    "register_com_android_net_module_util_TcUtils vm w3 env TcUtils_class = (r3, w4)"
    by (rule prod.exhaust)
  obtain r4 w5 where c4:
    "register_com_android_networkstack_tethering_BpfCoordinator vm w4 env = (r4, w5)"
    by (rule prod.exhaust)
  note run = JNI_OnLoad_GetEnv_ok [OF assms(1) [unfolded True] assms(2,3) c3 c4]
  have "calls_made (JNI_OnLoad vm w)
      = GetEnv_call JNI_VERSION_1_6 #
        take (Suc (length (takeWhile (\<lambda>r. 0 \<le> sint r) [r1, r2, r3, r4])))
          [TetheringUtils_call env,
           BpfMap_call env ''com/android/networkstack/tethering/util/BpfMap'',
           TcUtils_call env ''com/android/networkstack/tethering/util/TcUtils'',
           BpfCoordinator_call env]"
    unfolding run
    by (simp add: calls_made_def registration_sequence_def BpfMap_class_def TcUtils_class_def)
  then show ?thesis
    using True by (auto dest!: in_set_takeD)
qed

theorem class_names_are_the_tethering_util_ones_witness:
  "GetEnv (mock_host JNI_OK (1::nat)) [0, 0, 0, 0] JNI_VERSION_1_6
     = ((JNI_OK, 1), [0, 0, 0, 0]) \<and>
   register_com_android_networkstack_tethering_util_TetheringUtils
     (mock_host JNI_OK (1::nat)) [0, 0, 0, 0] 1 = (0, [0, 0, 0]) \<and>
   register_com_android_net_module_util_BpfMap
     (mock_host JNI_OK (1::nat)) [0, 0, 0] 1 BpfMap_class = (0, [0, 0]) \<and>
   BpfMap_call 1 ''com/android/networkstack/tethering/util/BpfMap''
     \<in> set (calls_made (JNI_OnLoad (mock_host JNI_OK (1::nat)) [0, 0, 0, 0])) \<and>
   TcUtils_call 1 ''com/android/networkstack/tethering/util/TcUtils''
     \<in> set (calls_made (JNI_OnLoad (mock_host JNI_OK (1::nat)) [0, 0, 0, 0])) \<and>
   BpfMap_call 1 ''com/android/net/module/util/BpfMap''
     \<notin> set (calls_made (JNI_OnLoad (mock_host JNI_OK (1::nat)) [0, 0, 0, 0])) \<and>
   TcUtils_call 1 ''com/android/net/module/util/TcUtils''
     \<notin> set (calls_made (JNI_OnLoad (mock_host JNI_OK (1::nat)) [0, 0, 0, 0]))"
proof -
  have hyps:
    "GetEnv (mock_host JNI_OK (1::nat)) [0, 0, 0, 0] JNI_VERSION_1_6
       = ((JNI_OK, 1), [0, 0, 0, 0])"
    "register_com_android_networkstack_tethering_util_TetheringUtils
       (mock_host JNI_OK (1::nat)) [0, 0, 0, 0] 1 = (0, [0, 0, 0])"
    "register_com_android_net_module_util_BpfMap
       (mock_host JNI_OK (1::nat)) [0, 0, 0] 1 BpfMap_class = (0, [0, 0])"
    by (simp_all add: mock_host_simps next_result_simps)
  note concl = class_names_are_the_tethering_util_ones [OF hyps]
  from concl have "BpfMap_call 1 ''com/android/net/module/util/BpfMap''
      \<notin> set (calls_made (JNI_OnLoad (mock_host JNI_OK (1::nat)) [0, 0, 0, 0]))"
    by fastforce
  moreover from concl have "TcUtils_call 1 ''com/android/net/module/util/TcUtils''
      \<notin> set (calls_made (JNI_OnLoad (mock_host JNI_OK (1::nat)) [0, 0, 0, 0]))"
    by fastforce
  ultimately show ?thesis
    using concl hyps by simp
qed

text \<open>
  Claim C10. The load begins with the \<open>GetEnv\<close> request for \<open>JNI_VERSION_1_6\<close>, and it goes
  on to the registration sequence exactly when the status of that request is \<open>JNI_OK\<close>. For
  every other status, whichever it is, the load logs the fatal line and returns \<open>JNI_ERR\<close>.
\<close>

theorem registration_starts_iff_GetEnv_ok:
  assumes "GetEnv vm w JNI_VERSION_1_6 = ((status, env), w1)"
  shows "take 1 (calls_made (JNI_OnLoad vm w)) = [GetEnv_call JNI_VERSION_1_6] \<and>
         (registrations (JNI_OnLoad vm w) \<noteq> []) = (status = JNI_OK) \<and>
         (TetheringUtils_call env \<in> set (calls_made (JNI_OnLoad vm w))) = (status = JNI_OK) \<and>
         (status \<noteq> JNI_OK \<longrightarrow>
            returned (JNI_OnLoad vm w) = JNI_ERR \<and>
            calls_made (JNI_OnLoad vm w)
              = [GetEnv_call JNI_VERSION_1_6,
                 Log_call ANDROID_LOG_FATAL LOG_TAG ''ERROR: GetEnv failed''])"
proof (cases "status = JNI_OK")
  case False
  from JNI_OnLoad_GetEnv_failed [OF assms False] False show ?thesis
    by (simp add: calls_made_def returned_def registrations_def is_registration_def
        fatal_line_def)
next
  case True
  from JNI_OnLoad_ok_shape [OF assms [unfolded True]]
  obtain n w' where n: "1 \<le> n" "n \<le> 4"
    and out: "JNI_OnLoad vm w
        = (JNI_ERR, GetEnv_call JNI_VERSION_1_6 # take n (registration_sequence env), w') \<or>
      n = 4 \<and> JNI_OnLoad vm w
        = (JNI_VERSION_1_6, GetEnv_call JNI_VERSION_1_6 # take n (registration_sequence env), w')"
    by blast
  from out have calls: "calls_made (JNI_OnLoad vm w)
      = GetEnv_call JNI_VERSION_1_6 # take n (registration_sequence env)"
    by (auto simp add: calls_made_def)
  from n obtain m where m: "n = Suc m"
    by (cases n) simp_all
  have first: "take n (registration_sequence env)
      = TetheringUtils_call env # take m (tl (registration_sequence env))"
    unfolding m by (simp add: registration_sequence_def)
  have "registrations (JNI_OnLoad vm w) = take n (registration_sequence env)"
    unfolding registrations_def calls by (rule registrations_prefix)
  with first calls True show ?thesis
    by simp
qed

theorem registration_starts_iff_GetEnv_ok_witness:
  "GetEnv (mock_host 5 (1::nat)) [0, 0, 0, 0] JNI_VERSION_1_6 = ((5, 1), [0, 0, 0, 0]) \<and>
   (5 :: jint) \<noteq> JNI_OK \<and> (5 :: jint) \<noteq> JNI_ERR \<and>
   registrations (JNI_OnLoad (mock_host 5 (1::nat)) [0, 0, 0, 0]) = [] \<and>
   returned (JNI_OnLoad (mock_host 5 (1::nat)) [0, 0, 0, 0]) = JNI_ERR \<and>
   calls_made (JNI_OnLoad (mock_host 5 (1::nat)) [0, 0, 0, 0])
     = [GetEnv_call JNI_VERSION_1_6,
        Log_call ANDROID_LOG_FATAL LOG_TAG ''ERROR: GetEnv failed'']"
proof -
  have hyp: "GetEnv (mock_host 5 (1::nat)) [0, 0, 0, 0] JNI_VERSION_1_6
      = ((5, 1), [0, 0, 0, 0])"
    by (simp add: mock_host_simps)
  have ne: "(5 :: jint) \<noteq> JNI_OK" "(5 :: jint) \<noteq> JNI_ERR"
    by (simp_all add: JNI_OK_def JNI_ERR_def)
  from registration_starts_iff_GetEnv_ok [OF hyp] hyp ne show ?thesis
    by simp
qed

end
